theory Spec2Isabelle
  imports Main
begin

section \<open>RETURNN dataset wrappers (returnn/torch/data/returnn\_dataset\_wrapper.py)\<close>

text \<open>
  The module adapts a RETURNN dataset to the two consumption protocols of a PyTorch data
  pipeline: a lazily iterated stream (\<open>IterableDatasetWrapper\<close>) and two randomly indexable
  forms (\<open>MapStyleDatasetPerEpochWrapper\<close>, \<open>MapStyleDatasetFullWrapper\<close>).

  The wrapped dataset is an external, stateful object. It is taken as a parameter: a table
  of its methods, each of which reads and changes the dataset's own state and either
  returns a value or raises. Every Python method of the wrappers is a transformer of a
  state that holds the wrapper's two instance attributes, the dataset's state, and a log of
  the calls the wrapper has made into the dataset or the reset callback.

  The dataset and the callback act on the dataset's state only: they hold no reference to
  the wrapper. The base classes (\<open>torch.utils.data.IterDataPipe\<close>, \<open>MapDataPipe\<close>) are
  outside the module. They define no initializer. The metaclass of \<open>IterDataPipe\<close> replaces
  the \<open>reset\<close> and the \<open>__iter__\<close> that the body of \<open>IterableDatasetWrapper\<close> defines by
  wrappers of them, and keeps four more attributes on the instance; these hooks are
  described after the methods, and what a consumer iterates is the hooked iterator.
  \<open>MapDataPipe\<close> has no such hooks.
\<close>

subsection \<open>Exceptions and the wrapped dataset\<close>

text \<open>
  The exceptions that the module, the Python runtime or the hooks raise have a constructor
  of their own. \<open>InvalidatedIterator\<close> is the \<open>RuntimeError\<close> with which the hook turns away
  an iterator after a newer one was made of the same wrapper. \<open>StopIterationExc cls msg\<close> is
  a \<open>StopIteration\<close> or an instance of a subclass \<open>cls\<close> of it; \<open>BaseExceptionExc cls msg\<close>
  is an exception that is not an \<open>Exception\<close> (\<open>KeyboardInterrupt\<close>, \<open>SystemExit\<close>);
  \<open>OtherError cls msg\<close> is any other exception, of a class \<open>cls\<close> derived from
  \<open>Exception\<close>. The message is the first argument of the exception, a string.
  A dataset method may raise any of them.
\<close>

datatype exc =
    AttributeError string
  | AssertionError
  | TypeError string
  | Exception string
  | RuntimeError string
  | InvalidatedIterator
  | StopIterationExc string string
  | BaseExceptionExc string string
  | OtherError string string

text \<open>Is the exception a \<open>StopIteration\<close>; is it an \<open>Exception\<close>; the name of its class.\<close>

fun is_stop_iteration :: "exc \<Rightarrow> bool" where
  "is_stop_iteration (StopIterationExc cls msg) = True"
| "is_stop_iteration (OtherError cls msg) = (cls = ''StopIteration'')"
| "is_stop_iteration _ = False"

fun is_exception :: "exc \<Rightarrow> bool" where
  "is_exception (BaseExceptionExc cls msg) = False"
| "is_exception _ = True"


text \<open>
  The object returned by \<open>get_corpus_seq\<close> (class \<open>DatasetSeq\<close> of
  \<open>returnn.datasets.basic\<close>, declared outside this module): the wrappers read its attribute
  \<open>features\<close> only.
\<close>

record 'f dataset_seq =
  features :: 'f

text \<open>A call into the dataset: from the dataset's state to a result and the new state.\<close>

type_synonym ('s, 'a) ds_call = "'s \<Rightarrow> (exc + 'a) \<times> 's"

text \<open>
  The methods and the property (\<open>num_seqs\<close>) of \<open>ReturnnDataset\<close> that the module uses,
  with the arguments it passes them. \<open>'s\<close> is the dataset's state, \<open>'v\<close> the type of one
  data array, \<open>'f\<close> the type of the features of a corpus sequence.
\<close>

record ('s, 'v, 'f) returnn_dataset =
  get_data_keys :: "('s, string list) ds_call"
  is_less_than_num_seqs :: "int \<Rightarrow> ('s, bool) ds_call"
  load_seqs :: "int \<Rightarrow> int \<Rightarrow> ('s, unit) ds_call"
  get_data :: "int \<Rightarrow> string \<Rightarrow> ('s, 'v) ds_call"
  num_seqs :: "('s, int) ds_call"
  get_total_num_seqs :: "('s, int) ds_call"
  get_corpus_seq_idx :: "int \<Rightarrow> ('s, int) ds_call"
  get_corpus_seq :: "int \<Rightarrow> ('s, 'f dataset_seq) ds_call"
  have_corpus_seq_idx :: "('s, bool) ds_call"
  have_get_corpus_seq :: "('s, bool) ds_call"

text \<open>
  \<open>ResetCallbackT = Callable[[ReturnnDataset], None]\<close>: a function from the dataset, run for
  its effect. A Python function is true in a condition, so of an
  \<open>Optional[ResetCallbackT]\<close> only \<open>None\<close> is false.
\<close>

type_synonym ('s, 'v, 'f) reset_callback_t =
  "('s, 'v, 'f) returnn_dataset \<Rightarrow> ('s, unit) ds_call"

subsection \<open>The state: instance attributes, dataset state, call log\<close>

text \<open>One entry of the log: the call the wrapper made, and what came back.\<close>

datatype ('v, 'f) event =
    GetDataKeys "exc + string list"
  | IsLessThanNumSeqs int "exc + bool"
  | LoadSeqs int int "exc + unit"
  | GetData int string "exc + 'v"
  | NumSeqs "exc + int"
  | GetTotalNumSeqs "exc + int"
  | GetCorpusSeqIdx int "exc + int"
  | GetCorpusSeq int "exc + 'f dataset_seq"
  | HaveCorpusSeqIdx "exc + bool"
  | HaveGetCorpusSeq "exc + bool"
  | ResetCallback "exc + unit"

text \<open>
  \<open>self_dataset\<close> and \<open>self_reset_callback\<close> are the instance attributes \<open>self._dataset\<close> and
  \<open>self._reset_callback\<close>; \<open>None\<close> is an attribute that was never set (reading it raises
  \<open>AttributeError\<close>), \<open>Some None\<close> is a callback attribute set to Python's \<open>None\<close>.
\<close>

record ('s, 'v, 'f) world =
  self_dataset :: "('s, 'v, 'f) returnn_dataset option"
  self_reset_callback :: "('s, 'v, 'f) reset_callback_t option option"
  dataset_state :: 's
  calls :: "('v, 'f) event list"

text \<open>A freshly allocated object (\<open>object.__new__\<close>): no instance attribute, nothing called.\<close>

definition new_object :: "'s \<Rightarrow> ('s, 'v, 'f) world" where
  "new_object s = \<lparr>self_dataset = None, self_reset_callback = None, dataset_state = s, calls = []\<rparr>"

definition getattr_dataset ::
  "('s, 'v, 'f) world \<Rightarrow> exc + ('s, 'v, 'f) returnn_dataset" where
  "getattr_dataset w =
     (case self_dataset w of None \<Rightarrow> Inl (AttributeError ''_dataset'') | Some d \<Rightarrow> Inr d)"

definition getattr_reset_callback ::
  "('s, 'v, 'f) world \<Rightarrow> exc + ('s, 'v, 'f) reset_callback_t option" where
  "getattr_reset_callback w =
     (case self_reset_callback w of
        None \<Rightarrow> Inl (AttributeError ''_reset_callback'')
      | Some c \<Rightarrow> Inr c)"

text \<open>Run an external call on the dataset's state and log it with its result.\<close>

definition call ::
  "(exc + 'a \<Rightarrow> ('v, 'f) event) \<Rightarrow> ('s, 'a) ds_call \<Rightarrow> ('s, 'v, 'f) world
     \<Rightarrow> (exc + 'a) \<times> ('s, 'v, 'f) world" where
  "call ev f w =
     (case f (dataset_state w) of
        (r, s') \<Rightarrow> (r, w\<lparr>dataset_state := s', calls := calls w @ [ev r]\<rparr>))"

text \<open>\<open>self._dataset.m(...)\<close>: read the attribute, then call the method.\<close>

definition dataset_call ::
  "(exc + 'a \<Rightarrow> ('v, 'f) event) \<Rightarrow> (('s, 'v, 'f) returnn_dataset \<Rightarrow> ('s, 'a) ds_call)
     \<Rightarrow> ('s, 'v, 'f) world \<Rightarrow> (exc + 'a) \<times> ('s, 'v, 'f) world" where
  "dataset_call ev m w =
     (case getattr_dataset w of Inl e \<Rightarrow> (Inl e, w) | Inr d \<Rightarrow> call ev (m d) w)"

subsection \<open>Construction\<close>

text \<open>
  The two ways the wrappers are called: \<open>C()\<close>, and \<open>C(returnn_dataset, reset_callback=cb)\<close>
  where an omitted callback is the default \<open>None\<close>.
\<close>

datatype ('s, 'v, 'f) call_args =
    NoArgs
  | Args "('s, 'v, 'f) returnn_dataset" "('s, 'v, 'f) reset_callback_t option"

type_synonym ('s, 'v, 'f) initializer =
  "('s, 'v, 'f) call_args \<Rightarrow> ('s, 'v, 'f) world \<Rightarrow> (exc + unit) \<times> ('s, 'v, 'f) world"


text \<open>
  \<open>MapStyleDatasetPerEpochWrapper.__int__\<close>. The assertion is
  \<open>have_corpus_seq_idx() and have_get_corpus_seq()\<close>: the second call is made only when
  the first returned true.
\<close>

fun int_per_epoch :: "('s, 'v, 'f) initializer" where
  "int_per_epoch NoArgs w =
     (Inl (TypeError ''__int__() missing 1 required positional argument''), w)"
| "int_per_epoch (Args returnn_dataset reset_callback) w =
     (case call HaveCorpusSeqIdx (have_corpus_seq_idx returnn_dataset) w of
        (Inl e, w1) \<Rightarrow> (Inl e, w1)
      | (Inr False, w1) \<Rightarrow> (Inl AssertionError, w1)
      | (Inr True, w1) \<Rightarrow>
          (case call HaveGetCorpusSeq (have_get_corpus_seq returnn_dataset) w1 of
             (Inl e, w2) \<Rightarrow> (Inl e, w2)
           | (Inr False, w2) \<Rightarrow> (Inl AssertionError, w2)
           | (Inr True, w2) \<Rightarrow>
               (Inr (), w2\<lparr>self_dataset := Some returnn_dataset,
                           self_reset_callback := Some reset_callback\<rparr>)))"

text \<open>\<open>MapStyleDatasetFullWrapper.__int__\<close>\<close>

fun int_full :: "('s, 'v, 'f) initializer" where
  "int_full NoArgs w =
     (Inl (TypeError ''__int__() missing 1 required positional argument''), w)"
| "int_full (Args returnn_dataset reset_callback) w =
     (case call HaveGetCorpusSeq (have_get_corpus_seq returnn_dataset) w of
        (Inl e, w1) \<Rightarrow> (Inl e, w1)
      | (Inr False, w1) \<Rightarrow> (Inl AssertionError, w1)
      | (Inr True, w1) \<Rightarrow>
          (Inr (), w1\<lparr>self_dataset := Some returnn_dataset,
                      self_reset_callback := Some reset_callback\<rparr>))"


definition per_epoch_namespace :: "(string \<times> ('s, 'v, 'f) initializer) list" where
  "per_epoch_namespace = [(''__int__'', int_per_epoch)]"

definition full_namespace :: "(string \<times> ('s, 'v, 'f) initializer) list" where
  "full_namespace = [(''__int__'', int_full)]"

text \<open>
  The initializer inherited when a class defines no \<open>__init__\<close>: the base classes
  (\<open>torch.utils.data.IterDataPipe\<close>, \<open>MapDataPipe\<close>) define none, so it is that of
  \<open>object\<close>, which accepts no argument and sets no attribute.
\<close>

fun object_init :: "('s, 'v, 'f) initializer" where
  "object_init NoArgs w = (Inr (), w)"
| "object_init (Args d c) w = (Inl (TypeError ''takes no arguments''), w)"

text \<open>
  Calling a class: allocate the object, then run the method found under the name
  \<open>__init__\<close>, the class's own if it defines one.
\<close>

definition construct ::
  "(string \<times> ('s, 'v, 'f) initializer) list \<Rightarrow> ('s, 'v, 'f) call_args \<Rightarrow> 's
     \<Rightarrow> (exc + unit) \<times> ('s, 'v, 'f) world" where
  "construct namespace args s =
     (case map_of namespace ''__init__'' of
        Some init \<Rightarrow> init args (new_object s)
      | None \<Rightarrow> object_init args (new_object s))"

subsection \<open>reset, \_\_len\_\_, \_\_getitem\_\_\<close>

text \<open>
  \<open>if self._reset_callback: self._reset_callback(self._dataset)\<close>, the same in the three
  classes. The attribute is read for the test and again for the call; a callback is true
  in the test, so only \<open>None\<close> skips the call. The callback's return value is dropped.
\<close>

definition reset_body ::
  "('s, 'v, 'f) world \<Rightarrow> (exc + unit) \<times> ('s, 'v, 'f) world" where
  "reset_body w =
     (case getattr_reset_callback w of
        Inl e \<Rightarrow> (Inl e, w)
      | Inr None \<Rightarrow> (Inr (), w)
      | Inr (Some _) \<Rightarrow>
          (case getattr_reset_callback w of
             Inl e \<Rightarrow> (Inl e, w)
           | Inr None \<Rightarrow> (Inl (TypeError ''object is not callable''), w)
           | Inr (Some cb) \<Rightarrow>
               (case getattr_dataset w of
                  Inl e \<Rightarrow> (Inl e, w)
                | Inr d \<Rightarrow> call ResetCallback (cb d) w)))"


definition reset_per_epoch ::
  "('s, 'v, 'f) world \<Rightarrow> (exc + unit) \<times> ('s, 'v, 'f) world" where
  "reset_per_epoch = reset_body"

definition reset_full ::
  "('s, 'v, 'f) world \<Rightarrow> (exc + unit) \<times> ('s, 'v, 'f) world" where
  "reset_full = reset_body"

text \<open>\<open>IterableDatasetWrapper.__getitem__\<close>, on a direct instance of the class.\<close>

definition getitem_iterable ::
  "int \<Rightarrow> ('s, 'v, 'f) world \<Rightarrow> (exc + 'f) \<times> ('s, 'v, 'f) world" where
  "getitem_iterable index w =
     (Inl (Exception ''IterableDatasetWrapper.__getitem__ not supported''), w)"

text \<open>\<open>MapStyleDatasetPerEpochWrapper.__len__\<close>\<close>

definition len_per_epoch ::
  "('s, 'v, 'f) world \<Rightarrow> (exc + int) \<times> ('s, 'v, 'f) world" where
  "len_per_epoch w = dataset_call NumSeqs num_seqs w"

text \<open>\<open>MapStyleDatasetPerEpochWrapper.__getitem__\<close>\<close>

definition getitem_per_epoch ::
  "int \<Rightarrow> ('s, 'v, 'f) world \<Rightarrow> (exc + 'f) \<times> ('s, 'v, 'f) world" where
  "getitem_per_epoch index w =
     (case dataset_call (GetCorpusSeqIdx index) (\<lambda>d. get_corpus_seq_idx d index) w of
        (Inl e, w1) \<Rightarrow> (Inl e, w1)
      | (Inr corpus_seq_idx, w1) \<Rightarrow>
          (case dataset_call (GetCorpusSeq corpus_seq_idx)
                  (\<lambda>d. get_corpus_seq d corpus_seq_idx) w1 of
             (Inl e, w2) \<Rightarrow> (Inl e, w2)
           | (Inr seq, w2) \<Rightarrow> (Inr (features seq), w2)))"

text \<open>\<open>MapStyleDatasetFullWrapper.__len__\<close>\<close>

definition len_full ::
  "('s, 'v, 'f) world \<Rightarrow> (exc + int) \<times> ('s, 'v, 'f) world" where
  "len_full w = dataset_call GetTotalNumSeqs get_total_num_seqs w"

text \<open>\<open>MapStyleDatasetFullWrapper.__getitem__\<close>\<close>

definition getitem_full ::
  "int \<Rightarrow> ('s, 'v, 'f) world \<Rightarrow> (exc + 'f) \<times> ('s, 'v, 'f) world" where
  "getitem_full index w =
     (case dataset_call (GetCorpusSeq index) (\<lambda>d. get_corpus_seq d index) w of
        (Inl e, w1) \<Rightarrow> (Inl e, w1)
      | (Inr seq, w1) \<Rightarrow> (Inr (features seq), w1))"

subsection \<open>IterableDatasetWrapper.\_\_iter\_\_\<close>


datatype 'v outcome =
    Yield "string \<rightharpoonup> 'v"
  | StopIteration
  | Raised exc




text \<open>
  What leaves a generator when its body raises \<open>e\<close>: a \<open>StopIteration\<close> raised inside the
  body of a generator surfaces as \<open>RuntimeError\<close> (PEP 479), anything else as it is.
\<close>

definition generator_raises :: "exc \<Rightarrow> exc" where
  "generator_raises e =
     (if is_stop_iteration e then RuntimeError ''generator raised StopIteration'' else e)"


subsection \<open>The hooks of IterDataPipe on reset and \_\_iter\_\_\<close>

text \<open>
  \<open>IterableDatasetWrapper\<close> derives from \<open>torch.utils.data.IterDataPipe\<close>, whose metaclass
  replaces the \<open>reset\<close> and the \<open>__iter__\<close> of the class body (torch,
  \<open>utils/data/datapipes/_typing.py\<close> and \<open>_hook_iterator.py\<close>). The hooks keep four
  attributes on the wrapper, read with these defaults of the class until they are set:
  \<open>_valid_iterator_id\<close> (\<open>None\<close>), \<open>_number_of_samples_yielded\<close> (0),
  \<open>_fast_forward_iterator\<close> (\<open>None\<close>) and \<open>_snapshot_state\<close> (\<open>NotStarted\<close>).
  \<open>'it\<close> is the type of the iterator that restoring a snapshot leaves in
  \<open>_fast_forward_iterator\<close>; nothing in the module restores one.
\<close>

datatype snapshot_state_t = SnapshotNotStarted | SnapshotRestored | SnapshotIterating

record 'it iter_data_pipe =
  valid_iterator_id :: "int option"
  number_of_samples_yielded :: int
  fast_forward_iterator :: "'it option"
  snapshot_state :: snapshot_state_t


text \<open>The stream wrapper as an object: the attributes of the hooks and those of the module.\<close>

type_synonym ('s, 'v, 'f, 'it) datapipe = "'it iter_data_pipe \<times> ('s, 'v, 'f) world"

text \<open>
  What the hooks take from outside: \<open>annotate\<close>, how the hook of \<open>__iter__\<close> rewrites the
  message of an exception that passes through it, and \<open>next_restored\<close>, one \<open>next\<close> on the
  iterator of a restored snapshot.
\<close>

record ('s, 'v, 'f, 'it) hook =
  annotate :: "exc \<Rightarrow> exc"
  next_restored ::
    "'it \<Rightarrow> ('s, 'v, 'f, 'it) datapipe \<Rightarrow> 'v outcome \<times> 'it \<times> ('s, 'v, 'f, 'it) datapipe"




text \<open>
  An exception that passes the \<open>except Exception\<close> clause of the hook is annotated and
  raised again; one that is not an \<open>Exception\<close> is not caught.
\<close>

definition through_hook :: "('s, 'v, 'f, 'it) hook \<Rightarrow> exc \<Rightarrow> exc" where
  "through_hook h e = (if is_exception e then annotate h e else e)"




text \<open>
  A consumer that takes at most \<open>n\<close> items from an iterator of the wrapper: it stops when
  the iterator is exhausted or raises, and is \<open>Pending\<close> when it leaves the iterator
  suspended after \<open>n\<close> items. \<open>for data in wrapper\<close> is \<open>iterate h n Created\<close>.
\<close>

datatype ending = Exhausted | Failed exc | Pending







subsection \<open>Reading the call log\<close>







text \<open>
  What a result, a logged call, one \<open>next\<close> or a whole iteration raised, if anything.
\<close>

definition raised :: "exc + 'a \<Rightarrow> exc option" where
  "raised r = (case r of Inl e \<Rightarrow> Some e | Inr _ \<Rightarrow> None)"











text \<open>
  The questions put to \<open>is_less_than_num_seqs\<close> with their answers, and the ranges passed to
  \<open>load_seqs\<close>, in the order of the calls.
\<close>

fun answer :: "('v, 'f) event \<Rightarrow> (int \<times> (exc + bool)) list" where
  "answer (IsLessThanNumSeqs i r) = [(i, r)]"
| "answer _ = []"

definition has_more_answers :: "('v, 'f) event list \<Rightarrow> (int \<times> (exc + bool)) list" where
  "has_more_answers evs = concat (map answer evs)"

fun load_range :: "('v, 'f) event \<Rightarrow> (int \<times> int) list" where
  "load_range (LoadSeqs a b r) = [(a, b)]"
| "load_range _ = []"

definition load_calls :: "('v, 'f) event list \<Rightarrow> (int \<times> int) list" where
  "load_calls evs = concat (map load_range evs)"




subsection \<open>What a single invocation of the reset callback leaves behind\<close>


subsection \<open>The shape of the log of an iteration\<close>





text \<open>
  How the consumer of the hooked iterator sees the end of the inner generator.
\<close>

fun surface_ending :: "('s, 'v, 'f, 'it) hook \<Rightarrow> ending \<Rightarrow> ending" where
  "surface_ending h (Failed e) = Failed (through_hook h (generator_raises e))"
| "surface_ending h r = r"


text \<open>
  The \<open>n\<close> consecutive integers from \<open>i\<close>.
\<close>

definition upto_from :: "int \<Rightarrow> nat \<Rightarrow> int list" where
  "upto_from i n = map (\<lambda>j. i + int j) [0..<n]"

subsection \<open>A concrete dataset\<close>

text \<open>
  Two sequences with the keys \<open>data\<close> and \<open>classes\<close>; the state is the index of the
  sequence that is loaded, and reading any other sequence raises. The corpus has five
  sequences, and sequence \<open>i\<close> of the epoch is corpus sequence \<open>i + 3\<close>.
\<close>

definition example_dataset :: "(int option, int, string) returnn_dataset" where
  "example_dataset =
     \<lparr>get_data_keys = (\<lambda>s. (Inr [''data'', ''classes''], s)),
      is_less_than_num_seqs = (\<lambda>i s. (Inr (i < 2), s)),
      load_seqs = (\<lambda>a b s. (Inr (), Some a)),
      get_data = (\<lambda>i k s.
        (if s = Some i then Inr (if k = ''data'' then 10 + i else i)
         else Inl (OtherError ''RuntimeError'' ''not loaded''), s)),
      num_seqs = (\<lambda>s. (Inr 2, s)),
      get_total_num_seqs = (\<lambda>s. (Inr 5, s)),
      get_corpus_seq_idx = (\<lambda>i s. (Inr (i + 3), s)),
      get_corpus_seq = (\<lambda>i s.
        (if 0 \<le> i \<and> i < 5
         then Inr \<lparr>features = (if i = 3 then ''three'' else ''other'')\<rparr>
         else Inl (OtherError ''IndexError'' ''corpus''), s)),
      have_corpus_seq_idx = (\<lambda>s. (Inr True, s)),
      have_get_corpus_seq = (\<lambda>s. (Inr True, s))\<rparr>"

text \<open>The same dataset without corpus access.\<close>

definition example_no_corpus_dataset :: "(int option, int, string) returnn_dataset" where
  "example_no_corpus_dataset =
     example_dataset\<lparr>have_corpus_seq_idx := (\<lambda>s. (Inr False, s)),
                      have_get_corpus_seq := (\<lambda>s. (Inr False, s))\<rparr>"

text \<open>A reset callback that unloads whatever is loaded.\<close>

definition example_callback :: "(int option, int, string) reset_callback_t" where
  "example_callback d s = (Inr (), None)"


definition example_per_epoch :: "(int option, int, string) world" where
  "example_per_epoch =
     snd (int_per_epoch (Args example_dataset (Some example_callback)) (new_object (Some 7)))"

definition example_full :: "(int option, int, string) world" where
  "example_full = snd (int_full (Args example_dataset None) (new_object (Some 7)))"








section \<open>Properties\<close>

subsection \<open>Calls into the dataset\<close>

lemma call_eq:
  "call ev f w =
     (fst (f (dataset_state w)),
      w\<lparr>dataset_state := snd (f (dataset_state w)),
        calls := calls w @ [ev (fst (f (dataset_state w)))]\<rparr>)"
  by (simp add: call_def split: prod.split)

lemma dataset_call_Some:
  "self_dataset w = Some d \<Longrightarrow> dataset_call ev m w = call ev (m d) w"
  by (simp add: dataset_call_def getattr_dataset_def)

lemma dataset_call_None:
  "self_dataset w = None \<Longrightarrow> dataset_call ev m w = (Inl (AttributeError ''_dataset''), w)"
  by (simp add: dataset_call_def getattr_dataset_def)



lemma example_per_epoch_eq:
  "example_per_epoch =
     \<lparr>self_dataset = Some example_dataset,
      self_reset_callback = Some (Some example_callback),
      dataset_state = Some 7,
      calls = [HaveCorpusSeqIdx (Inr True), HaveGetCorpusSeq (Inr True)]\<rparr>"
  by (simp add: example_per_epoch_def new_object_def call_eq example_dataset_def)

lemma example_full_eq:
  "example_full =
     \<lparr>self_dataset = Some example_dataset, self_reset_callback = Some None,
      dataset_state = Some 7, calls = [HaveGetCorpusSeq (Inr True)]\<rparr>"
  by (simp add: example_full_def new_object_def call_eq example_dataset_def)

subsection \<open>Random access of the map-style wrappers\<close>

text \<open>
  C2. On a wrapper that holds the dataset \<open>d\<close>, \<open>MapStyleDatasetPerEpochWrapper.__getitem__\<close>
  of \<open>index\<close> first calls \<open>get_corpus_seq_idx(index)\<close>, then \<open>get_corpus_seq\<close> on what that
  returned, and returns the \<open>features\<close> of the sequence it got;
  \<open>MapStyleDatasetFullWrapper.__getitem__\<close> calls \<open>get_corpus_seq(index)\<close> on the index
  itself, makes no other call, and returns the \<open>features\<close> of that sequence.
\<close>

theorem getitem_map_style:
  assumes "self_dataset w = Some d"
  shows "(\<forall>c s1 seq s2.
            get_corpus_seq_idx d index (dataset_state w) = (Inr c, s1) \<longrightarrow>
            get_corpus_seq d c s1 = (Inr seq, s2) \<longrightarrow>
              fst (getitem_per_epoch index w) = Inr (features seq) \<and>
              dataset_state (snd (getitem_per_epoch index w)) = s2 \<and>
              calls (snd (getitem_per_epoch index w)) =
                calls w @ [GetCorpusSeqIdx index (Inr c), GetCorpusSeq c (Inr seq)]) \<and>
         (\<forall>seq s1.
            get_corpus_seq d index (dataset_state w) = (Inr seq, s1) \<longrightarrow>
              fst (getitem_full index w) = Inr (features seq) \<and>
              dataset_state (snd (getitem_full index w)) = s1 \<and>
              calls (snd (getitem_full index w)) = calls w @ [GetCorpusSeq index (Inr seq)])"
  using assms
  by (simp add: getitem_per_epoch_def getitem_full_def dataset_call_Some call_eq)

theorem getitem_map_style_witness:
  "fst (getitem_per_epoch 0 example_per_epoch) = Inr ''three'' \<and>
   fst (getitem_full 0 example_full) = Inr ''other''"
  using getitem_map_style [of example_per_epoch example_dataset 0]
    getitem_map_style [of example_full example_dataset 0]
  by (simp add: example_per_epoch_eq example_full_eq example_dataset_def)

subsection \<open>Length of the map-style wrappers\<close>

text \<open>
  C3. On a wrapper that holds the dataset \<open>d\<close>, \<open>MapStyleDatasetPerEpochWrapper.__len__\<close>
  reads the dataset's \<open>num_seqs\<close> once and returns what it gives, and
  \<open>MapStyleDatasetFullWrapper.__len__\<close> calls \<open>get_total_num_seqs()\<close> once and returns what
  it gives: the same number (or the same raise), and the dataset state that call left.
\<close>

theorem len_delegates:
  assumes "self_dataset w = Some d"
  shows "fst (len_per_epoch w) = fst (num_seqs d (dataset_state w)) \<and>
         dataset_state (snd (len_per_epoch w)) = snd (num_seqs d (dataset_state w)) \<and>
         calls (snd (len_per_epoch w)) =
           calls w @ [NumSeqs (fst (num_seqs d (dataset_state w)))] \<and>
         fst (len_full w) = fst (get_total_num_seqs d (dataset_state w)) \<and>
         dataset_state (snd (len_full w)) = snd (get_total_num_seqs d (dataset_state w)) \<and>
         calls (snd (len_full w)) =
           calls w @ [GetTotalNumSeqs (fst (get_total_num_seqs d (dataset_state w)))]"
  using assms by (simp add: len_per_epoch_def len_full_def dataset_call_Some call_eq)

theorem len_delegates_witness:
  "fst (len_per_epoch example_per_epoch) = Inr 2 \<and> fst (len_full example_full) = Inr 5"
  using len_delegates [of example_per_epoch example_dataset]
    len_delegates [of example_full example_dataset]
  by (simp add: example_per_epoch_eq example_full_eq example_dataset_def)

subsection \<open>Construction of the map-style wrappers\<close>

text \<open>
  The methods named \<open>__int__\<close> do assert the capabilities when they are called: a dataset
  that reports a missing capability makes them raise \<open>AssertionError\<close>.
\<close>

lemma int_per_epoch_asserts:
  "fst (have_corpus_seq_idx d (dataset_state w)) = Inr False \<Longrightarrow>
     fst (int_per_epoch (Args d cb) w) = Inl AssertionError"
  "fst (have_corpus_seq_idx d (dataset_state w)) = Inr True \<Longrightarrow>
   fst (have_get_corpus_seq d (snd (have_corpus_seq_idx d (dataset_state w)))) = Inr False \<Longrightarrow>
     fst (int_per_epoch (Args d cb) w) = Inl AssertionError"
  by (simp_all add: call_eq)

lemma int_full_asserts:
  "fst (have_get_corpus_seq d (dataset_state w)) = Inr False \<Longrightarrow>
     fst (int_full (Args d cb) w) = Inl AssertionError"
  by (simp add: call_eq)

text \<open>
  C4. Constructing a map-style wrapper from a dataset that lacks the corpus capabilities
  does not reach the assertion. Called directly, \<open>__int__\<close> raises \<open>AssertionError\<close> on
  \<open>example_no_corpus_dataset\<close>; constructing either wrapper from it raises \<open>TypeError\<close>
  instead, with no call made into the dataset, because the class defines no method under
  the name \<open>__init__\<close>.
\<close>

theorem construct_map_style_no_assertion:
  "fst (int_per_epoch (Args example_no_corpus_dataset None) (new_object None)) =
     Inl AssertionError \<and>
   fst (int_full (Args example_no_corpus_dataset None) (new_object None)) =
     Inl AssertionError \<and>
   construct per_epoch_namespace (Args example_no_corpus_dataset None) None =
     (Inl (TypeError ''takes no arguments''),
      \<lparr>self_dataset = None, self_reset_callback = None, dataset_state = None, calls = []\<rparr>) \<and>
   construct full_namespace (Args example_no_corpus_dataset None) None =
     (Inl (TypeError ''takes no arguments''),
      \<lparr>self_dataset = None, self_reset_callback = None, dataset_state = None, calls = []\<rparr>)"
  by (simp add: construct_def per_epoch_namespace_def full_namespace_def new_object_def
      call_eq example_no_corpus_dataset_def example_dataset_def)

text \<open>
  C5. Neither map-style class defines a method named \<open>__init__\<close>, so construction runs the
  inherited initializer: with a dataset argument it raises \<open>TypeError\<close> and sets nothing;
  without arguments it succeeds and leaves an object with neither attribute, on which
  \<open>reset\<close>, \<open>__len__\<close> and \<open>__getitem__\<close> of both classes raise \<open>AttributeError\<close>.
\<close>

theorem map_style_never_initialised:
  "map_of per_epoch_namespace ''__init__'' = (None :: (('s, 'v, 'f) initializer) option) \<and>
   map_of full_namespace ''__init__'' = (None :: (('s, 'v, 'f) initializer) option) \<and>
   construct per_epoch_namespace (Args d cb) s =
     (Inl (TypeError ''takes no arguments''), new_object s) \<and>
   construct full_namespace (Args d cb) s =
     (Inl (TypeError ''takes no arguments''), new_object s) \<and>
   construct per_epoch_namespace NoArgs s = (Inr (), (new_object s :: ('s, 'v, 'f) world)) \<and>
   construct full_namespace NoArgs s = (Inr (), (new_object s :: ('s, 'v, 'f) world)) \<and>
   reset_per_epoch (new_object s :: ('s, 'v, 'f) world) =
     (Inl (AttributeError ''_reset_callback''), new_object s) \<and>
   len_per_epoch (new_object s :: ('s, 'v, 'f) world) =
     (Inl (AttributeError ''_dataset''), new_object s) \<and>
   getitem_per_epoch index (new_object s :: ('s, 'v, 'f) world) =
     (Inl (AttributeError ''_dataset''), new_object s) \<and>
   reset_full (new_object s :: ('s, 'v, 'f) world) =
     (Inl (AttributeError ''_reset_callback''), new_object s) \<and>
   len_full (new_object s :: ('s, 'v, 'f) world) =
     (Inl (AttributeError ''_dataset''), new_object s) \<and>
   getitem_full index (new_object s :: ('s, 'v, 'f) world) =
     (Inl (AttributeError ''_dataset''), new_object s)"
  by (simp add: construct_def per_epoch_namespace_def full_namespace_def
      reset_per_epoch_def reset_full_def reset_body_def getattr_reset_callback_def
      len_per_epoch_def len_full_def getitem_per_epoch_def getitem_full_def
      dataset_call_None new_object_def)

subsection \<open>reset\<close>





subsection \<open>The log of a pass through the loop has the expected shape\<close>








subsection \<open>Failures in the log\<close>










subsection \<open>Questions and loads in the log\<close>

lemma has_more_answers_append [simp]:
  "has_more_answers (evs @ evs') = has_more_answers evs @ has_more_answers evs'"
  by (simp add: has_more_answers_def)

lemma has_more_answers_Nil [simp]: "has_more_answers [] = []"
  by (simp add: has_more_answers_def)

lemma has_more_answers_Cons [simp]:
  "has_more_answers (ev # evs) = answer ev @ has_more_answers evs"
  by (simp add: has_more_answers_def)

lemma load_calls_append [simp]: "load_calls (evs @ evs') = load_calls evs @ load_calls evs'"
  by (simp add: load_calls_def)

lemma load_calls_Nil [simp]: "load_calls [] = []"
  by (simp add: load_calls_def)

lemma load_calls_Cons [simp]: "load_calls (ev # evs) = load_range ev @ load_calls evs"
  by (simp add: load_calls_def)




lemma upto_from_0 [simp]: "upto_from i 0 = []"
  by (simp add: upto_from_def)









subsection \<open>Loads come before reads\<close>








subsection \<open>The items are what the reads returned\<close>












subsection \<open>The attributes of the module are not assigned\<close>









subsection \<open>Failures of the map-style wrappers and of reset\<close>





subsection \<open>The log of an iteration of the hooked iterator\<close>







lemma surface_ending_simps:
  "surface_ending h r' = Pending \<longleftrightarrow> r' = Pending"
  "surface_ending h r' = Exhausted \<longleftrightarrow> r' = Exhausted"
  "(\<exists>e. surface_ending h r' = Failed e) \<longleftrightarrow> (\<exists>e. r' = Failed e)"
  by (cases r'; simp)+




subsection \<open>The concrete dataset, iterated\<close>








subsection \<open>Items of the stream wrapper\<close>





subsection \<open>Order of the calls of the stream wrapper\<close>



subsection \<open>The wrapper's own state\<close>














subsection \<open>Failures of the dataset\<close>












subsection \<open>IterableDatasetWrapper.\_\_getitem\_\_ is unsupported\<close>

text \<open>
  C10. \<open>IterableDatasetWrapper.__getitem__\<close> raises for every index and in every state of
  the wrapper and of the dataset, without calling the dataset and without changing
  anything.
\<close>

theorem getitem_iterable_raises:
  "\<exists>e. getitem_iterable index w = (Inl e, w)"
  by (simp add: getitem_iterable_def)

end
